theory Spec2Isabelle
  imports Main "HOL-Library.Sublist"
begin

section \<open>The relay text controller of one-api (relay/controller/text.go)\<close>

text \<open>
  Go strings and byte slices are sequences of bytes; they are modelled as \<^typ>\<open>string\<close>
  (a list of 8-bit characters). A Go \<open>error\<close> value is a message; \<open>nil\<close> is \<open>None\<close>.
\<close>

datatype error = Error string

section \<open>The Go standard library, as far as the controller calls it\<close>

definition byte_of :: "char \<Rightarrow> nat" where
  "byte_of c = of_char c"

definition in_range :: "char \<Rightarrow> nat \<Rightarrow> nat \<Rightarrow> bool" where
  "in_range c lo hi \<longleftrightarrow> lo \<le> byte_of c \<and> byte_of c \<le> hi"

subsection \<open>unicode/utf8 and unicode/utf16\<close>

text \<open>
  \<open>utf8.DecodeRune\<close>: the number of bytes of the well-formed encoding the input starts
  with, or \<open>None\<close> where Go returns \<open>(RuneError, 1)\<close> (and \<open>(RuneError, 0)\<close> on empty
  input). The ranges are those of Go's \<open>first\<close> and \<open>acceptRanges\<close> tables.
\<close>

definition is_cont :: "char \<Rightarrow> bool" where
  "is_cont c \<longleftrightarrow> in_range c 0x80 0xBF"

fun DecodeRune_size :: "string \<Rightarrow> nat option" where
  "DecodeRune_size [] = None"
| "DecodeRune_size (c # cs) =
     (if byte_of c < 0x80 then Some 1
      else if in_range c 0xC2 0xDF then
        (case cs of c1 # _ \<Rightarrow> if is_cont c1 then Some 2 else None | _ \<Rightarrow> None)
      else if in_range c 0xE0 0xEF then
        (case cs of c1 # c2 # _ \<Rightarrow>
           if in_range c1 (if byte_of c = 0xE0 then 0xA0 else 0x80)
                          (if byte_of c = 0xED then 0x9F else 0xBF) \<and> is_cont c2
           then Some 3 else None
         | _ \<Rightarrow> None)
      else if in_range c 0xF0 0xF4 then
        (case cs of c1 # c2 # c3 # _ \<Rightarrow>
           if in_range c1 (if byte_of c = 0xF0 then 0x90 else 0x80)
                          (if byte_of c = 0xF4 then 0x8F else 0xBF)
              \<and> is_cont c2 \<and> is_cont c3
           then Some 4 else None
         | _ \<Rightarrow> None)
      else None)"

definition RuneError :: nat where
  "RuneError = 0xFFFD"

text \<open>\<open>utf8.EncodeRune\<close>: surrogates and values above U+10FFFF are encoded as U+FFFD.\<close>

definition EncodeRune :: "nat \<Rightarrow> string" where
  "EncodeRune r =
     (if r \<le> 0x7F then [char_of r]
      else if r \<le> 0x7FF then [char_of (0xC0 + r div 64), char_of (0x80 + r mod 64)]
      else if r > 0x10FFFF \<or> (0xD800 \<le> r \<and> r \<le> 0xDFFF) then
        [CHR 0xEF, CHR 0xBF, CHR 0xBD]
      else if r \<le> 0xFFFF then
        [char_of (0xE0 + r div 4096), char_of (0x80 + (r div 64) mod 64),
         char_of (0x80 + r mod 64)]
      else
        [char_of (0xF0 + r div 262144), char_of (0x80 + (r div 4096) mod 64),
         char_of (0x80 + (r div 64) mod 64), char_of (0x80 + r mod 64)])"

definition IsSurrogate :: "nat \<Rightarrow> bool" where
  "IsSurrogate r \<longleftrightarrow> 0xD800 \<le> r \<and> r < 0xE000"

text \<open>\<open>utf16.DecodeRune\<close>: the code point of a surrogate pair, U+FFFD if it is not one.\<close>

definition utf16_DecodeRune :: "nat \<Rightarrow> nat \<Rightarrow> nat" where
  "utf16_DecodeRune r1 r2 =
     (if 0xD800 \<le> r1 \<and> r1 < 0xDC00 \<and> 0xDC00 \<le> r2 \<and> r2 < 0xE000
      then (r1 - 0xD800) * 1024 + (r2 - 0xDC00) + 0x10000
      else RuneError)"

subsection \<open>strings\<close>

text \<open>\<open>strings.Index\<close>: the index of the first occurrence, \<open>None\<close> for Go's \<open>-1\<close>.\<close>

fun Index :: "string \<Rightarrow> string \<Rightarrow> nat option" where
  "Index [] substr = (if substr = [] then Some 0 else None)"
| "Index (c # cs) substr =
     (if prefix substr (c # cs) then Some 0 else map_option Suc (Index cs substr))"

lemma Index_Some_nonempty: "Index s substr = Some m \<Longrightarrow> substr \<noteq> [] \<Longrightarrow> s \<noteq> []"
  by (cases s) auto

lemma DecodeRune_size_pos: "DecodeRune_size s = Some n \<Longrightarrow> 0 < n"
  by (cases s) (auto split: if_splits list.splits)

text \<open>
  \<open>strings.Split(s, sep)\<close> (\<open>genSplit\<close> with \<open>n < 0\<close>): cut at the first occurrence of
  the separator and continue after it; with an empty separator, \<open>explode\<close> cuts after
  each UTF-8 sequence.
\<close>

function explode_runes :: "string \<Rightarrow> string list" where
  "explode_runes s =
     (if s = [] then []
      else let size = (case DecodeRune_size s of None \<Rightarrow> 1 | Some n \<Rightarrow> n)
           in take size s # explode_runes (drop size s))"
  by pat_completeness auto
termination
  by (relation "measure length") (auto dest: DecodeRune_size_pos split: option.splits)

function Split :: "string \<Rightarrow> string \<Rightarrow> string list" where
  "Split s sep =
     (if sep = [] then explode_runes s
      else case Index s sep of
             None \<Rightarrow> [s]
           | Some m \<Rightarrow> take m s # Split (drop (m + length sep) s) sep)"
  by pat_completeness auto
termination
  by (relation "measure (\<lambda>(s, sep). length s)") (auto dest: Index_Some_nonempty)

text \<open>
  \<open>strings.TrimSpace\<close> removes the leading and the trailing runes that
  \<open>unicode.IsSpace\<close> accepts. A rune is decoded only from its well-formed shortest
  encoding (forwards by \<open>DecodeRuneInString\<close>, backwards by \<open>DecodeLastRuneInString\<close>),
  so a white-space rune leads (trails) exactly when the string starts (ends) with one of
  the encodings below: the six ASCII characters, U+0085, U+00A0, U+1680,
  U+2000..U+200A, U+2028, U+2029, U+202F, U+205F and U+3000.
\<close>

definition space_encodings :: "string list" where
  "space_encodings =
     [[CHR 0x09], [CHR 0x0A], [CHR 0x0B], [CHR 0x0C], [CHR 0x0D], [CHR 0x20],
      [CHR 0xC2, CHR 0x85], [CHR 0xC2, CHR 0xA0], [CHR 0xE1, CHR 0x9A, CHR 0x80],
      [CHR 0xE2, CHR 0x80, CHR 0x80], [CHR 0xE2, CHR 0x80, CHR 0x81],
      [CHR 0xE2, CHR 0x80, CHR 0x82], [CHR 0xE2, CHR 0x80, CHR 0x83],
      [CHR 0xE2, CHR 0x80, CHR 0x84], [CHR 0xE2, CHR 0x80, CHR 0x85],
      [CHR 0xE2, CHR 0x80, CHR 0x86], [CHR 0xE2, CHR 0x80, CHR 0x87],
      [CHR 0xE2, CHR 0x80, CHR 0x88], [CHR 0xE2, CHR 0x80, CHR 0x89],
      [CHR 0xE2, CHR 0x80, CHR 0x8A], [CHR 0xE2, CHR 0x80, CHR 0xA8],
      [CHR 0xE2, CHR 0x80, CHR 0xA9], [CHR 0xE2, CHR 0x80, CHR 0xAF],
      [CHR 0xE2, CHR 0x81, CHR 0x9F], [CHR 0xE3, CHR 0x80, CHR 0x80]]"

text \<open>Remove, from the front, every member of \<open>encs\<close> the string starts with.\<close>

fun trim_front :: "string list \<Rightarrow> string \<Rightarrow> string" where
  "trim_front encs [] = []"
| "trim_front encs (c # cs) =
     (case find (\<lambda>e. e \<noteq> [] \<and> prefix e (c # cs)) encs of
        None \<Rightarrow> c # cs
      | Some e \<Rightarrow> trim_front encs (drop (length e - 1) cs))"

definition TrimSpace :: "string \<Rightarrow> string" where
  "TrimSpace s =
     rev (trim_front (map rev space_encodings) (rev (trim_front space_encodings s)))"

subsection \<open>encoding/json: Unmarshal into a \<open>map[string]interface{}\<close>\<close>

text \<open>
  The values \<open>Unmarshal\<close> stores in an \<open>interface{}\<close>: \<open>nil\<close>, \<open>bool\<close>, \<open>float64\<close>,
  \<open>string\<close>, \<open>[]interface{}\<close> and \<open>map[string]interface{}\<close>. A number is kept as its
  literal (the controller never reads one); an object as its members in the order of
  the text, where a later member overwrites an earlier one of the same key.
\<close>

datatype json =
    JNull
  | JBool bool
  | JNumber string
  | JString string
  | JArray "json list"
  | JObject "(string \<times> json) list"

definition lookup :: "(string \<times> json) list \<Rightarrow> string \<Rightarrow> json option" where
  "lookup m k = map_of (rev m) k"

datatype token =
    LBrace | RBrace | LBracket | RBracket | Colon | Comma
  | TString string | TNumber string | TTrue | TFalse | TNull

definition isSpace :: "char \<Rightarrow> bool" where
  "isSpace c \<longleftrightarrow> c = CHR '' '' \<or> c = CHR 0x09 \<or> c = CHR 0x0D \<or> c = CHR 0x0A"

definition is_digit :: "char \<Rightarrow> bool" where
  "is_digit c \<longleftrightarrow> in_range c 0x30 0x39"

definition hexval :: "char \<Rightarrow> nat option" where
  "hexval c =
     (if in_range c 0x30 0x39 then Some (byte_of c - 0x30)
      else if in_range c 0x61 0x66 then Some (byte_of c - 0x61 + 10)
      else if in_range c 0x41 0x46 then Some (byte_of c - 0x41 + 10)
      else None)"

text \<open>
  The scanner inside a string literal, after the opening quote: the raw bytes up to the
  closing quote, or \<open>None\<close> on a control character, a bad escape or the end of input.
\<close>

fun scan_string :: "string \<Rightarrow> string option" where
  "scan_string [] = None"
| "scan_string (c # cs) =
     (if c = CHR 0x22 then Some []
      else if c = CHR 0x5C then
        (case cs of
           [] \<Rightarrow> None
         | e # es \<Rightarrow>
             if e \<in> set [CHR 0x22, CHR 0x5C, CHR ''/'', CHR ''b'', CHR ''f'', CHR ''n'',
                          CHR ''r'', CHR ''t''] then
               map_option (\<lambda>r. c # e # r) (scan_string es)
             else if e = CHR ''u'' then
               (case es of
                  h1 # h2 # h3 # h4 # rest \<Rightarrow>
                    if list_all (\<lambda>h. hexval h \<noteq> None) [h1, h2, h3, h4]
                    then map_option (\<lambda>r. c # e # h1 # h2 # h3 # h4 # r) (scan_string rest)
                    else None
                | _ \<Rightarrow> None)
             else None)
      else if byte_of c < 0x20 then None
      else map_option (\<lambda>r. c # r) (scan_string cs))"

text \<open>
  The scanner on a number: the literal the input starts with, per the grammar
  \<open>-? (0 | [1-9][0-9]*) (. [0-9]+)? ([eE] [+-]? [0-9]+)?\<close>, or \<open>None\<close>.
\<close>

definition scan_exp :: "string \<Rightarrow> string option" where
  "scan_exp s =
     (case s of
        e # u \<Rightarrow>
          if e = CHR ''e'' \<or> e = CHR ''E'' then
            (let sg = (case u of
                         x # _ \<Rightarrow> if x = CHR ''+'' \<or> x = CHR ''-'' then [x] else []
                       | [] \<Rightarrow> []);
                 ds = takeWhile is_digit (drop (length sg) u)
             in if ds = [] then None else Some (e # sg @ ds))
          else Some []
      | [] \<Rightarrow> Some [])"

definition scan_frac :: "string \<Rightarrow> string option" where
  "scan_frac s =
     (case s of
        p # u \<Rightarrow>
          if p = CHR ''.'' then
            (let ds = takeWhile is_digit u in if ds = [] then None else Some (p # ds))
          else Some []
      | [] \<Rightarrow> Some [])"

definition scan_int :: "string \<Rightarrow> string option" where
  "scan_int s =
     (case s of
        d # u \<Rightarrow>
          if d = CHR ''0'' then Some [d]
          else if is_digit d then Some (d # takeWhile is_digit u)
          else None
      | [] \<Rightarrow> None)"

definition scan_number :: "string \<Rightarrow> string option" where
  "scan_number s =
     (let sg = (case s of x # _ \<Rightarrow> if x = CHR ''-'' then [x] else [] | [] \<Rightarrow> [])
      in case scan_int (drop (length sg) s) of
           None \<Rightarrow> None
         | Some i \<Rightarrow>
             (case scan_frac (drop (length (sg @ i)) s) of
                None \<Rightarrow> None
              | Some f \<Rightarrow>
                  (case scan_exp (drop (length (sg @ i @ f)) s) of
                     None \<Rightarrow> None
                   | Some e \<Rightarrow> Some (sg @ i @ f @ e))))"

text \<open>
  \<open>getu4\<close>: the value of the escape \<open>\uXXXX\<close> the input starts with; \<open>None\<close> for
  Go's \<open>-1\<close>.
\<close>

definition getu4 :: "string \<Rightarrow> nat option" where
  "getu4 s =
     (case s of
        b # u # h1 # h2 # h3 # h4 # _ \<Rightarrow>
          if b = CHR 0x5C \<and> u = CHR ''u'' then
            (case (hexval h1, hexval h2, hexval h3, hexval h4) of
               (Some x1, Some x2, Some x3, Some x4) \<Rightarrow>
                 Some (((x1 * 16 + x2) * 16 + x3) * 16 + x4)
             | _ \<Rightarrow> None)
          else None
      | _ \<Rightarrow> None)"

definition unescape :: "char \<Rightarrow> char option" where
  "unescape e =
     (if e = CHR 0x22 \<or> e = CHR 0x5C \<or> e = CHR ''/'' \<or> e = CHR 0x27 then Some e
      else if e = CHR ''b'' then Some (CHR 0x08)
      else if e = CHR ''f'' then Some (CHR 0x0C)
      else if e = CHR ''n'' then Some (CHR 0x0A)
      else if e = CHR ''r'' then Some (CHR 0x0D)
      else if e = CHR ''t'' then Some (CHR 0x09)
      else None)"

text \<open>
  \<open>unquoteBytes\<close> on the bytes between the quotes: escapes are replaced, \<open>\u\<close> escapes
  are encoded as UTF-8 (a surrogate pair as one code point, a lone surrogate as U+FFFD),
  and bytes that are not well-formed UTF-8 are replaced by U+FFFD one at a time.
\<close>

function unquoteBytes :: "string \<Rightarrow> string option" where
  "unquoteBytes [] = Some []"
| "unquoteBytes (c # cs) =
     (if c = CHR 0x5C then
        (case cs of
           [] \<Rightarrow> None
         | e # es \<Rightarrow>
             if e = CHR ''u'' then
               (case getu4 (c # cs) of
                  None \<Rightarrow> None
                | Some rr \<Rightarrow>
                    if IsSurrogate rr then
                      (case getu4 (drop 5 cs) of
                         None \<Rightarrow>
                           map_option ((@) (EncodeRune RuneError)) (unquoteBytes (drop 5 cs))
                       | Some rr1 \<Rightarrow>
                           if utf16_DecodeRune rr rr1 \<noteq> RuneError then
                             map_option ((@) (EncodeRune (utf16_DecodeRune rr rr1)))
                               (unquoteBytes (drop 11 cs))
                           else
                             map_option ((@) (EncodeRune RuneError)) (unquoteBytes (drop 5 cs)))
                    else map_option ((@) (EncodeRune rr)) (unquoteBytes (drop 5 cs)))
             else
               (case unescape e of
                  None \<Rightarrow> None
                | Some x \<Rightarrow> map_option ((#) x) (unquoteBytes es)))
      else if c = CHR 0x22 \<or> byte_of c < 0x20 then None
      else if byte_of c < 0x80 then map_option ((#) c) (unquoteBytes cs)
      else
        (case DecodeRune_size (c # cs) of
           None \<Rightarrow> map_option ((@) (EncodeRune RuneError)) (unquoteBytes cs)
         | Some n \<Rightarrow>
             map_option ((@) (take n (c # cs))) (unquoteBytes (drop (n - 1) cs))))"
  by pat_completeness auto
termination
  by (relation "measure length") auto

text \<open>
  The tokens of a JSON text, or \<open>None\<close> at the first byte that starts none. White space
  between tokens is a space, a tab, a carriage return or a line feed. A string token
  holds the unquoted string.
\<close>

function tokens :: "string \<Rightarrow> token list option" where
  "tokens [] = Some []"
| "tokens (c # cs) =
     (if isSpace c then tokens cs
      else if c = CHR ''{'' then map_option ((#) LBrace) (tokens cs)
      else if c = CHR ''}'' then map_option ((#) RBrace) (tokens cs)
      else if c = CHR ''['' then map_option ((#) LBracket) (tokens cs)
      else if c = CHR '']'' then map_option ((#) RBracket) (tokens cs)
      else if c = CHR '':'' then map_option ((#) Colon) (tokens cs)
      else if c = CHR '','' then map_option ((#) Comma) (tokens cs)
      else if c = CHR 0x22 then
        (case scan_string cs of
           None \<Rightarrow> None
         | Some raw \<Rightarrow>
             (case unquoteBytes raw of
                None \<Rightarrow> None
              | Some s \<Rightarrow>
                  map_option ((#) (TString s)) (tokens (drop (Suc (length raw)) cs))))
      else if prefix ''true'' (c # cs) then map_option ((#) TTrue) (tokens (drop 3 cs))
      else if prefix ''false'' (c # cs) then map_option ((#) TFalse) (tokens (drop 4 cs))
      else if prefix ''null'' (c # cs) then map_option ((#) TNull) (tokens (drop 3 cs))
      else
        (case scan_number (c # cs) of
           None \<Rightarrow> None
         | Some lit \<Rightarrow>
             map_option ((#) (TNumber lit)) (tokens (drop (length lit - 1) cs))))"
  by pat_completeness auto
termination
  by (relation "measure length") auto

text \<open>
  The parser is the scanner's push-down machine, on tokens: a stack of the open arrays
  and objects (\<open>parseState\<close>) with the values read so far, and what may come next.
  At most \<open>maxNestingDepth\<close> arrays and objects may be open.
\<close>

datatype frame =
    InArray "json list"
  | InObject "(string \<times> json) list" "string option"

datatype expect =
    BeginValue | BeginValueOrEmpty | BeginString | BeginStringOrEmpty
  | ObjectColon | EndValue | EndTop json

definition maxNestingDepth :: nat where
  "maxNestingDepth = 10000"

type_synonym pstate = "frame list \<times> expect"

fun endValue :: "json \<Rightarrow> frame list \<Rightarrow> pstate option" where
  "endValue v [] = Some ([], EndTop v)"
| "endValue v (InArray vs # st) = Some (InArray (vs @ [v]) # st, EndValue)"
| "endValue v (InObject kvs (Some k) # st) =
     Some (InObject (kvs @ [(k, v)]) None # st, EndValue)"
| "endValue v (InObject kvs None # st) = None"

definition pushParseState :: "frame \<Rightarrow> expect \<Rightarrow> frame list \<Rightarrow> pstate option" where
  "pushParseState f e st =
     (if length (f # st) \<le> maxNestingDepth then Some (f # st, e) else None)"

fun beginValue :: "token \<Rightarrow> frame list \<Rightarrow> pstate option" where
  "beginValue LBrace st = pushParseState (InObject [] None) BeginStringOrEmpty st"
| "beginValue LBracket st = pushParseState (InArray []) BeginValueOrEmpty st"
| "beginValue (TString s) st = endValue (JString s) st"
| "beginValue (TNumber lit) st = endValue (JNumber lit) st"
| "beginValue TTrue st = endValue (JBool True) st"
| "beginValue TFalse st = endValue (JBool False) st"
| "beginValue TNull st = endValue JNull st"
| "beginValue _ st = None"

fun step :: "pstate \<Rightarrow> token \<Rightarrow> pstate option" where
  "step (st, BeginValue) t = beginValue t st"
| "step (InArray vs # st, BeginValueOrEmpty) RBracket = endValue (JArray vs) st"
| "step (st, BeginValueOrEmpty) t = beginValue t st"
| "step (InObject kvs None # st, BeginStringOrEmpty) RBrace = endValue (JObject kvs) st"
| "step (InObject kvs None # st, BeginStringOrEmpty) (TString k) =
     Some (InObject kvs (Some k) # st, ObjectColon)"
| "step (InObject kvs None # st, BeginString) (TString k) =
     Some (InObject kvs (Some k) # st, ObjectColon)"
| "step (st, ObjectColon) Colon = Some (st, BeginValue)"
| "step (InArray vs # st, EndValue) Comma = Some (InArray vs # st, BeginValue)"
| "step (InArray vs # st, EndValue) RBracket = endValue (JArray vs) st"
| "step (InObject kvs None # st, EndValue) Comma =
     Some (InObject kvs None # st, BeginString)"
| "step (InObject kvs None # st, EndValue) RBrace = endValue (JObject kvs) st"
| "step _ _ = None"

fun steps :: "pstate \<Rightarrow> token list \<Rightarrow> pstate option" where
  "steps ps [] = Some ps"
| "steps ps (t # ts) = (case step ps t of None \<Rightarrow> None | Some ps1 \<Rightarrow> steps ps1 ts)"

text \<open>
  \<open>checkValid\<close> (\<open>json.Valid\<close>) accepts exactly the texts that hold one JSON value;
  \<open>parse_json\<close> is that value.
\<close>

definition parse_json :: "string \<Rightarrow> json option" where
  "parse_json data =
     (case tokens data of
        None \<Rightarrow> None
      | Some ts \<Rightarrow>
          (case steps ([], BeginValue) ts of
             Some ([], EndTop v) \<Rightarrow> Some v
           | _ \<Rightarrow> None))"

definition Valid :: "string \<Rightarrow> bool" where
  "Valid data \<longleftrightarrow> parse_json data \<noteq> None"

fun number_literals :: "json \<Rightarrow> string list" where
  "number_literals (JNumber lit) = [lit]"
| "number_literals (JArray vs) = concat (map number_literals vs)"
| "number_literals (JObject kvs) = concat (map (\<lambda>kv. number_literals (snd kv)) kvs)"
| "number_literals _ = []"

text \<open>
  \<open>json.Unmarshal(data, &m)\<close> for a nil \<open>m\<close> of type \<open>map[string]interface{}\<close>. It
  returns a \<open>SyntaxError\<close> unless the text is valid; then an \<open>UnmarshalTypeError\<close> if
  the value is an array, a string, a number or a boolean (only an object or \<open>null\<close> can
  be stored in a map), or if the conversion of some number literal to \<open>float64\<close> is out
  of range. Floating point is not modelled: \<open>rangeError lit\<close> stands for
  "\<open>strconv.ParseFloat(lit, 64)\<close> returns an error". For \<open>null\<close> the map stays nil, which
  reads like the empty map.
\<close>

datatype json_error = SyntaxError | UnmarshalTypeError

definition Unmarshal :: "(string \<Rightarrow> bool) \<Rightarrow> string \<Rightarrow> json_error + (string \<times> json) list" where
  "Unmarshal rangeError data =
     (case parse_json data of
        None \<Rightarrow> Inl SyntaxError
      | Some v \<Rightarrow>
          if list_ex rangeError (number_literals v) then Inl UnmarshalTypeError
          else (case v of
                  JObject kvs \<Rightarrow> Inr kvs
                | JNull \<Rightarrow> Inr []
                | _ \<Rightarrow> Inl UnmarshalTypeError))"

section \<open>responseBodyLogWriter\<close>

text \<open>
  The struct embeds a \<open>gin.ResponseWriter\<close> (an interface, so its \<open>Write\<close> and
  \<open>WriteString\<close> are dynamically dispatched) and holds a pointer to a \<open>bytes.Buffer\<close>.
  The embedded writer is modelled by its state \<open>'s\<close>; its two methods are the parameters
  \<open>rw_Write\<close> and \<open>rw_WriteString\<close> of the operations below: any function from
  the sink's state and the bytes to a \<open>(count, error)\<close> result and the next state.
  The buffer is the list of bytes written to it so far.
  The mutex \<open>streamMux\<close> only serialises whole calls of \<open>Write\<close>/\<open>WriteString\<close>;
  a sequence of calls is modelled in the order in which they hold the lock.
\<close>

record 's responseBodyLogWriter =
  ResponseWriter :: 's
  body :: string
  isStream :: bool

type_synonym write_result = "int \<times> error option"

type_synonym 's sink_write = "'s \<Rightarrow> string \<Rightarrow> write_result \<times> 's"

text \<open>
  \<open>bytes.Buffer.Write\<close> and \<open>WriteString\<close>: append; the returned error is always
  nil. (They panic when the buffer cannot grow for lack of memory; memory is unbounded
  here.)
\<close>

definition Buffer_Write :: "string \<Rightarrow> string \<Rightarrow> write_result \<times> string" where
  "Buffer_Write buf b = ((int (length b), None), buf @ b)"

definition Write :: "'s sink_write \<Rightarrow> 's responseBodyLogWriter \<Rightarrow> string
    \<Rightarrow> write_result \<times> 's responseBodyLogWriter" where
  "Write rw_Write w b =
     (let (_, buf) = Buffer_Write (body w) b;
          w1 = w\<lparr>body := buf\<rparr>;
          (res, s) = rw_Write (ResponseWriter w1) b
      in (res, w1\<lparr>ResponseWriter := s\<rparr>))"

definition WriteString :: "'s sink_write \<Rightarrow> 's responseBodyLogWriter \<Rightarrow> string
    \<Rightarrow> write_result \<times> 's responseBodyLogWriter" where
  "WriteString rw_WriteString w s =
     (let (_, buf) = Buffer_Write (body w) s;
          w1 = w\<lparr>body := buf\<rparr>;
          (res, s') = rw_WriteString (ResponseWriter w1) s
      in (res, w1\<lparr>ResponseWriter := s'\<rparr>))"

text \<open>
  A finite sequence of \<open>Write\<close> calls on the tap: the results of the calls in order, and
  the tap afterwards.
\<close>

fun Writes :: "'s sink_write \<Rightarrow> 's responseBodyLogWriter \<Rightarrow> string list
    \<Rightarrow> write_result list \<times> 's responseBodyLogWriter" where
  "Writes rw w [] = ([], w)"
| "Writes rw w (b # bs) =
     (let (r, w1) = Write rw w b; (rs, w2) = Writes rw w1 bs in (r # rs, w2))"

text \<open>The same sequence of calls made on the wrapped sink directly, with no tap.\<close>

fun sink_Writes :: "'s sink_write \<Rightarrow> 's \<Rightarrow> string list \<Rightarrow> write_result list \<times> 's" where
  "sink_Writes rw s [] = ([], s)"
| "sink_Writes rw s (b # bs) =
     (let (r, s1) = rw s b; (rs, s2) = sink_Writes rw s1 bs in (r # rs, s2))"

text \<open>
  A sink that records what it receives, for stating what reaches it: its state is the
  bytes received so far and a script of the results it will give; a call consumes one
  entry of the script (a sink with an empty script accepts everything).
\<close>

type_synonym recording_sink = "string \<times> write_result list"

fun recording_Write :: "recording_sink sink_write" where
  "recording_Write (got, []) b = ((int (length b), None), (got @ b, []))"
| "recording_Write (got, r # script) b = (r, (got @ b, script))"

section \<open>Content extraction for the log\<close>

text \<open>
  A type assertion \<open>x.(T)\<close> with the comma-ok form is a case distinction on the value;
  indexing a map with a missing key gives \<open>nil\<close>, which fails every assertion.
\<close>

definition extractContentFromResponse :: "(string \<Rightarrow> bool) \<Rightarrow> string \<Rightarrow> string" where
  "extractContentFromResponse rangeError responseBody =
     (case Unmarshal rangeError responseBody of
        Inl err \<Rightarrow> ''Failed to parse response JSON''
      | Inr jsonData \<Rightarrow>
          (case lookup jsonData ''choices'' of
             Some (JArray choices) \<Rightarrow>
               (case choices of
                  [] \<Rightarrow> ''No content found in response''
                | choice0 # _ \<Rightarrow>
                    (case choice0 of
                       JObject choice \<Rightarrow>
                         (case lookup choice ''message'' of
                            Some (JObject message) \<Rightarrow>
                              (case lookup message ''content'' of
                                 Some (JString content) \<Rightarrow> content
                               | _ \<Rightarrow> ''No content field found in message'')
                          | _ \<Rightarrow> ''Invalid message format in response'')
                     | _ \<Rightarrow> ''Invalid choice format in response''))
           | _ \<Rightarrow> ''No content found in response''))"

text \<open>
  The two loops of \<open>extractContentFromStream\<close>, with the \<open>strings.Builder\<close>
  \<open>combinedContent\<close> as the accumulator: over the choices of one chunk, and over the
  chunks.
\<close>

fun choices_loop :: "string \<Rightarrow> json list \<Rightarrow> string" where
  "choices_loop combinedContent [] = combinedContent"
| "choices_loop combinedContent (choice # rest) =
     (case choice of
        JObject choiceMap \<Rightarrow>
          (case lookup choiceMap ''delta'' of
             Some (JObject delta) \<Rightarrow>
               (case lookup delta ''content'' of
                  Some (JString contentPiece) \<Rightarrow>
                    choices_loop (combinedContent @ contentPiece) rest
                | _ \<Rightarrow> choices_loop combinedContent rest)
           | _ \<Rightarrow> choices_loop combinedContent rest)
      | _ \<Rightarrow> choices_loop combinedContent rest)"

fun chunks_loop :: "(string \<Rightarrow> bool) \<Rightarrow> string \<Rightarrow> string list \<Rightarrow> string" where
  "chunks_loop rangeError combinedContent [] = combinedContent"
| "chunks_loop rangeError combinedContent (chunk0 # rest) =
     (let chunk = TrimSpace chunk0 in
      if chunk = [] \<or> chunk = ''[DONE]'' then chunks_loop rangeError combinedContent rest
      else case Unmarshal rangeError chunk of
             Inl err \<Rightarrow> chunks_loop rangeError combinedContent rest
           | Inr jsonData \<Rightarrow>
               (case lookup jsonData ''choices'' of
                  Some (JArray choices) \<Rightarrow>
                    if choices = [] then chunks_loop rangeError combinedContent rest
                    else chunks_loop rangeError (choices_loop combinedContent choices) rest
                | _ \<Rightarrow> chunks_loop rangeError combinedContent rest))"

definition extractContentFromStream :: "(string \<Rightarrow> bool) \<Rightarrow> string \<Rightarrow> string" where
  "extractContentFromStream rangeError content =
     chunks_loop rangeError [] (Split content ''data: '')"

text \<open>
  What the specification says of one frame, in its words: the frame is the trimmed
  chunk; an empty frame and the sentinel terminator give no text; a frame that fails to
  parse is ignored; otherwise every choice's delta content fragment that is present is
  taken, and a choice missing a field contributes no text.
\<close>

definition delta_fragment :: "json \<Rightarrow> string" where
  "delta_fragment choice =
     (case choice of
        JObject c \<Rightarrow>
          (case lookup c ''delta'' of
             Some (JObject d) \<Rightarrow>
               (case lookup d ''content'' of Some (JString s) \<Rightarrow> s | _ \<Rightarrow> [])
           | _ \<Rightarrow> [])
      | _ \<Rightarrow> [])"

definition frame_text :: "(string \<Rightarrow> bool) \<Rightarrow> string \<Rightarrow> string" where
  "frame_text rangeError frame =
     (if frame = [] \<or> frame = ''[DONE]'' then []
      else case Unmarshal rangeError frame of
             Inl err \<Rightarrow> []
           | Inr doc \<Rightarrow>
               (case lookup doc ''choices'' of
                  Some (JArray choices) \<Rightarrow> concat (map delta_fragment choices)
                | _ \<Rightarrow> []))"

text \<open>
  \<open>logResponseBody\<close> writes one line to the log; the line is modelled by what it
  reports (the timestamp is left out).
\<close>

datatype log_entry =
    EmptyResponseBody
  | ExtractedContent string
  | FinalRequestBody string
  | Errorf string
  | Warnf string
  | Debugf string

definition logResponseBody :: "(string \<Rightarrow> bool) \<Rightarrow> string \<Rightarrow> bool \<Rightarrow> log_entry" where
  "logResponseBody rangeError responseBody stream =
     (if responseBody = [] then EmptyResponseBody
      else if stream then ExtractedContent (extractContentFromStream rangeError responseBody)
      else ExtractedContent (extractContentFromResponse rangeError responseBody))"

section \<open>RelayTextHelper\<close>

subsection \<open>Data\<close>

text \<open>
  \<open>model.GeneralOpenAIRequest\<close>: the controller reads and writes \<open>Model\<close> and reads
  \<open>Stream\<close>; the other fields are the record's extension. \<open>meta.Meta\<close>: the fields
  the controller uses. \<open>model.ErrorWithStatusCode\<close>: the message, the machine-readable
  code and the HTTP status.
\<close>

record GeneralOpenAIRequest =
  Model :: string
  Stream :: bool

record Meta =
  Mode :: int
  ChannelType :: int
  TokenId :: int
  Group :: string
  ModelMapping :: "string \<rightharpoonup> string"
  APIType :: int
  OriginModelName :: string
  ActualModelName :: string
  IsStream :: bool
  PromptTokens :: int

record ErrorWithStatusCode =
  Message :: string
  Code :: string
  StatusCode :: int

definition StatusBadRequest :: int where
  "StatusBadRequest = 400"

definition StatusInternalServerError :: int where
  "StatusInternalServerError = 500"

text \<open>
  Modelled from the spec: \<open>openai.ErrorWrapper\<close> is defined in another package. The
  structured error "carries an HTTP-status-equivalent code, a machine-readable kind, and
  a human message".
\<close>

definition ErrorWrapper :: "error \<Rightarrow> string \<Rightarrow> int \<Rightarrow> ErrorWithStatusCode" where
  "ErrorWrapper err code statusCode =
     \<lparr>Message = (case err of Error msg \<Rightarrow> msg), Code = code, StatusCode = statusCode\<rparr>"

subsection \<open>The quota ledger\<close>

text \<open>
  The ledger is the balance of the call's account and the operations applied to it, in
  order. A reservation is its amount.
\<close>

datatype ledger_event = Reserved int | Released int | Settled int int

record ledger =
  balance :: int
  events :: "ledger_event list"

text \<open>
  Modelled from the spec: \<open>preConsumeQuota\<close> is defined in another file of the package.
  \<open>Reserve(account, amount)\<close> "fails with InsufficientBalance if the account cannot
  cover amount; otherwise atomically debits and returns a reservation handle". The
  amount is computed from the prompt tokens and the ratio in floating point, which is
  not modelled: it is the parameter \<open>amount\<close>; so is the structured error of the
  refusal.
\<close>

definition preConsumeQuota :: "ErrorWithStatusCode \<Rightarrow> int \<Rightarrow> ledger
    \<Rightarrow> (ErrorWithStatusCode + int) \<times> ledger" where
  "preConsumeQuota insufficientBalance amount l =
     (if balance l < amount then (Inl insufficientBalance, l)
      else (Inr amount,
            l\<lparr>balance := balance l - amount, events := events l @ [Reserved amount]\<rparr>))"

text \<open>
  Modelled from the spec: \<open>billing.ReturnPreConsumedQuota\<close> is defined in another
  package. \<open>Release(reservation)\<close> "credits the account back by the reservation's
  amount".
\<close>

definition ReturnPreConsumedQuota :: "int \<Rightarrow> ledger \<Rightarrow> ledger" where
  "ReturnPreConsumedQuota preConsumedQuota l =
     l\<lparr>balance := balance l + preConsumedQuota,
       events := events l @ [Released preConsumedQuota]\<rparr>"

text \<open>
  Modelled from the spec: \<open>postConsumeQuota\<close> is defined in another file of the package.
  \<open>Settle(reservation, actualAmount)\<close> "finalizes: if actualAmount < reserved, credits
  the difference; if greater, attempts an additional debit (going negative is allowed)".
  The actual amount is computed from the usage and the ratios in floating point: it is
  the parameter \<open>actual\<close>.
\<close>

definition postConsumeQuota :: "int \<Rightarrow> int \<Rightarrow> ledger \<Rightarrow> ledger" where
  "postConsumeQuota actual preConsumedQuota l =
     l\<lparr>balance := balance l + preConsumedQuota - actual,
       events := events l @ [Settled preConsumedQuota actual]\<rparr>"

text \<open>How often a ledger released, and how often it settled.\<close>

definition releases :: "ledger \<Rightarrow> nat" where
  "releases l = length (filter (\<lambda>e. case e of Released _ \<Rightarrow> True | _ \<Rightarrow> False) (events l))"

definition settlements :: "ledger \<Rightarrow> nat" where
  "settlements l =
     length (filter (\<lambda>e. case e of Settled _ _ \<Rightarrow> True | _ \<Rightarrow> False) (events l))"

subsection \<open>The request context and the collaborators\<close>

text \<open>
  \<open>c.Request.Body\<close> is a reader: the bytes still to be read, and the error the read
  ends with, if any. \<open>io.ReadAll\<close> drains it.
\<close>

datatype reader = Reader string "error option"

fun ReadAll :: "reader \<Rightarrow> (error + string) \<times> reader" where
  "ReadAll (Reader bs None) = (Inr bs, Reader [] None)"
| "ReadAll (Reader bs (Some err)) = (Inl err, Reader [] (Some err))"

text \<open>
  The state a call works on: the per-call \<open>Meta\<close>, \<open>c.Writer\<close>, \<open>c.Request.Body\<close>, the
  quota ledger and the log.
\<close>

record 'w Context =
  meta :: Meta
  Writer :: 'w
  Request_Body :: reader
  quota :: ledger
  logs :: "log_entry list"

text \<open>
  \<open>adaptor.Adaptor\<close> is an interface; a value of it is the record of its methods.
  \<open>Init\<close> prepares the adaptor's own per-call state and is part of the value that
  \<open>relay.GetAdaptor\<close> yields here. \<open>DoResponse\<close> yields the chunks it writes to
  \<open>c.Writer\<close>, in order, and its result.
\<close>

record ('r, 'conv, 'resp, 'usage) adaptor =
  ConvertRequest :: "int \<Rightarrow> 'r GeneralOpenAIRequest_scheme \<Rightarrow> error + 'conv"
  DoRequest :: "Meta \<Rightarrow> string \<Rightarrow> error + 'resp"
  DoResponse :: "'resp \<Rightarrow> Meta \<Rightarrow> string list \<times> (ErrorWithStatusCode + 'usage)"

text \<open>
  What the controller calls or reads and the source file does not define: the other
  functions of the package and of the packages it imports, the two constants
  \<open>apitype.OpenAI\<close> and \<open>channeltype.Baichuan\<close>, \<open>json.Marshal\<close> on the two types it
  is applied to, and the wrapped response writer's \<open>Write\<close>. The ratios are
  \<open>float64\<close> values: their type is the parameter \<open>'ratio\<close> and their product the
  function \<open>ratio_mul\<close>.
\<close>

record ('r, 'conv, 'resp, 'usage, 'ratio, 's) collaborators =
  getAndValidateTextRequest :: "int \<Rightarrow> error + 'r GeneralOpenAIRequest_scheme"
  GetModelRatio :: "string \<Rightarrow> 'ratio"
  GetGroupRatio :: "string \<Rightarrow> 'ratio"
  ratio_mul :: "'ratio \<Rightarrow> 'ratio \<Rightarrow> 'ratio"
  getPromptTokens :: "'r GeneralOpenAIRequest_scheme \<Rightarrow> int \<Rightarrow> int"
  quotaToReserve :: "'r GeneralOpenAIRequest_scheme \<Rightarrow> int \<Rightarrow> 'ratio \<Rightarrow> Meta \<Rightarrow> int"
  insufficientBalance :: ErrorWithStatusCode
  GetAdaptor :: "int \<Rightarrow> ('r, 'conv, 'resp, 'usage) adaptor option"
  apitype_OpenAI :: int
  channeltype_Baichuan :: int
  Marshal_request :: "'r GeneralOpenAIRequest_scheme \<Rightarrow> error + string"
  Marshal_converted :: "'conv \<Rightarrow> error + string"
  isErrorHappened :: "Meta \<Rightarrow> 'resp \<Rightarrow> bool"
  RelayErrorHandler :: "'resp \<Rightarrow> ErrorWithStatusCode"
  quotaUsed :: "'usage \<Rightarrow> 'ratio \<Rightarrow> 'ratio \<Rightarrow> 'ratio \<Rightarrow> int"
  rw_Write :: "'s sink_write"
  ParseFloat_rangeError :: "string \<Rightarrow> bool"

subsection \<open>Model mapping\<close>

text \<open>
  Modelled from the spec: \<open>getMappedModelName\<close> is defined in another file of the
  package. "Resolve the requested model name through a mapping table (mapping may be
  absent, identity, or rename); record whether a rename occurred":
  \<open>Resolve(requestedName) \<rightarrow> (effectiveName, wasRemapped)\<close>.
\<close>

definition getMappedModelName :: "string \<Rightarrow> (string \<rightharpoonup> string) \<Rightarrow> string \<times> bool" where
  "getMappedModelName modelName mapping =
     (case mapping modelName of
        None \<Rightarrow> (modelName, False)
      | Some mappedModelName \<Rightarrow> (mappedModelName, mappedModelName \<noteq> modelName))"

text \<open>Lines 72 to 76 of \<open>RelayTextHelper\<close>: the three assignments of the model mapping.\<close>

definition map_model_name :: "Meta \<Rightarrow> 'r GeneralOpenAIRequest_scheme
    \<Rightarrow> Meta \<times> 'r GeneralOpenAIRequest_scheme \<times> bool" where
  "map_model_name m textRequest =
     (let m1 = m\<lparr>OriginModelName := Model textRequest\<rparr>;
          (mapped, isModelMapped) = getMappedModelName (Model textRequest) (ModelMapping m1);
          textRequest1 = textRequest\<lparr>Model := mapped\<rparr>;
          m2 = m1\<lparr>ActualModelName := Model textRequest1\<rparr>
      in (m2, textRequest1, isModelMapped))"

subsection \<open>getRequestBody\<close>

text \<open>
  The result is the error, or the bytes of the request body to send (the \<open>io.Reader\<close>
  is a buffer over them) and the string of them for the log; the context afterwards has
  the request body drained or restored, and the debug lines in its log.
\<close>

definition getRequestBody ::
  "('r, 'conv, 'resp, 'usage, 'ratio, 's) collaborators \<Rightarrow> 'w Context \<Rightarrow> Meta
    \<Rightarrow> 'r GeneralOpenAIRequest_scheme \<Rightarrow> ('r, 'conv, 'resp, 'usage) adaptor \<Rightarrow> bool
    \<Rightarrow> (error + string \<times> string) \<times> 'w Context" where
  "getRequestBody k c m textRequest adaptor isModelMapped =
     (if APIType m = apitype_OpenAI k then
        (let shouldResetRequestBody =
               (isModelMapped \<or> ChannelType m = channeltype_Baichuan k)
         in if shouldResetRequestBody then
              (case Marshal_request k textRequest of
                 Inl err \<Rightarrow> (Inl err, c)
               | Inr jsonStr \<Rightarrow> (Inr (jsonStr, jsonStr), c))
            else
              (case ReadAll (Request_Body c) of
                 (Inl err, drained) \<Rightarrow> (Inl err, c\<lparr>Request_Body := drained\<rparr>)
               | (Inr bodyBytes, drained) \<Rightarrow>
                   (Inr (bodyBytes, bodyBytes),
                    c\<lparr>Request_Body := Reader bodyBytes None\<rparr>)))
      else
        (case ConvertRequest adaptor (Mode m) textRequest of
           Inl err \<Rightarrow> (Inl err, c\<lparr>logs := logs c @ [Debugf ''converted request failed'']\<rparr>)
         | Inr convertedRequest \<Rightarrow>
             (case Marshal_converted k convertedRequest of
                Inl err \<Rightarrow>
                  (Inl err,
                   c\<lparr>logs := logs c @ [Debugf ''converted request json_marshal_failed'']\<rparr>)
              | Inr jsonData \<Rightarrow>
                  (Inr (jsonData, jsonData),
                   c\<lparr>logs := logs c @ [Debugf ''converted request'']\<rparr>))))"

subsection \<open>RelayTextHelper\<close>

text \<open>
  The part of \<open>RelayTextHelper\<close> after the quota was pre-consumed (from line 90), on
  the context whose writer is the \<open>responseBodyLogWriter\<close>. The statement
  \<open>go postConsumeQuota(...)\<close> starts the settlement, which runs to its end on its own;
  the ledger the model returns is the ledger once it has run.
\<close>

definition relay_reserved ::
  "('r, 'conv, 'resp, 'usage, 'ratio, 's) collaborators
    \<Rightarrow> 's responseBodyLogWriter Context \<Rightarrow> 'r GeneralOpenAIRequest_scheme \<Rightarrow> bool
    \<Rightarrow> 'ratio \<Rightarrow> 'ratio \<Rightarrow> 'ratio \<Rightarrow> int
    \<Rightarrow> ErrorWithStatusCode option \<times> 's responseBodyLogWriter Context" where
  "relay_reserved k c textRequest isModelMapped ratio modelRatio groupRatio preConsumedQuota =
     (case GetAdaptor k (APIType (meta c)) of
        None \<Rightarrow>
          (Some (ErrorWrapper (Error ''invalid api type'') ''invalid_api_type''
                   StatusBadRequest), c)
      | Some adaptor \<Rightarrow>
          (case getRequestBody k c (meta c) textRequest adaptor isModelMapped of
             (Inl err, c1) \<Rightarrow>
               (Some (ErrorWrapper err ''convert_request_failed'' StatusInternalServerError),
                c1)
           | (Inr (requestBody, bodyContent), c1) \<Rightarrow>
               (let c2 = c1\<lparr>logs := logs c1 @ [FinalRequestBody bodyContent]\<rparr> in
                case DoRequest adaptor (meta c2) requestBody of
                  Inl err \<Rightarrow>
                    (Some (ErrorWrapper err ''do_request_failed'' StatusInternalServerError),
                     c2\<lparr>logs := logs c2 @ [Errorf ''DoRequest failed'']\<rparr>)
                | Inr resp \<Rightarrow>
                    if isErrorHappened k (meta c2) resp then
                      (Some (RelayErrorHandler k resp),
                       c2\<lparr>quota := ReturnPreConsumedQuota preConsumedQuota (quota c2)\<rparr>)
                    else
                      (case DoResponse adaptor resp (meta c2) of
                         (chunks, result) \<Rightarrow>
                           (let c3 = c2\<lparr>Writer := snd (Writes (rw_Write k) (Writer c2) chunks)\<rparr>
                            in case result of
                                 Inl respErr \<Rightarrow>
                                   (Some respErr,
                                    c3\<lparr>logs := logs c3 @ [Errorf ''respErr is not nil''],
                                       quota := ReturnPreConsumedQuota preConsumedQuota
                                                  (quota c3)\<rparr>)
                               | Inr usage \<Rightarrow>
                                   (None,
                                    c3\<lparr>logs := logs c3 @
                                          [logResponseBody (ParseFloat_rangeError k)
                                             (body (Writer c3)) (IsStream (meta c3))],
                                       quota := postConsumeQuota
                                                  (quotaUsed k usage ratio modelRatio groupRatio)
                                                  preConsumedQuota (quota c3)\<rparr>))))))"

text \<open>
  \<open>RelayTextHelper\<close>. A call that fails validation returns before the writer is
  wrapped (\<open>Inl\<close> of the context as it was); every other call ends on the context with
  the wrapping writer (\<open>Inr\<close>).
\<close>

definition RelayTextHelper ::
  "('r, 'conv, 'resp, 'usage, 'ratio, 's) collaborators \<Rightarrow> 's Context
    \<Rightarrow> ErrorWithStatusCode option \<times> ('s Context + 's responseBodyLogWriter Context)" where
  "RelayTextHelper k c =
     (case getAndValidateTextRequest k (Mode (meta c)) of
        Inl err \<Rightarrow>
          (Some (ErrorWrapper err ''invalid_text_request'' StatusBadRequest),
           Inl (c\<lparr>logs := logs c @ [Errorf ''getAndValidateTextRequest failed'']\<rparr>))
      | Inr textRequest0 \<Rightarrow>
          (let m0 = (meta c)\<lparr>IsStream := Stream textRequest0\<rparr>;
               writer = \<lparr>ResponseWriter = Writer c, body = [], isStream = IsStream m0\<rparr>;
               (m1, textRequest, isModelMapped) = map_model_name m0 textRequest0;
               modelRatio = GetModelRatio k (Model textRequest);
               groupRatio = GetGroupRatio k (Group m1);
               ratio = ratio_mul k modelRatio groupRatio;
               promptTokens = getPromptTokens k textRequest (Mode m1);
               m2 = m1\<lparr>PromptTokens := promptTokens\<rparr>;
               c1 = \<lparr>meta = m2, Writer = writer, Request_Body = Request_Body c,
                     quota = quota c, logs = logs c\<rparr>
           in case preConsumeQuota (insufficientBalance k)
                     (quotaToReserve k textRequest promptTokens ratio m2) (quota c1) of
                (Inl bizErr, l) \<Rightarrow>
                  (Some bizErr,
                   Inr (c1\<lparr>quota := l, logs := logs c1 @ [Warnf ''preConsumeQuota failed'']\<rparr>))
              | (Inr preConsumedQuota, l) \<Rightarrow>
                  (case relay_reserved k (c1\<lparr>quota := l\<rparr>) textRequest isModelMapped
                          ratio modelRatio groupRatio preConsumedQuota of
                     (result, c2) \<Rightarrow> (result, Inr c2))))"

subsection \<open>An example world\<close>

text \<open>
  A small world for the closed statements below: requests with no further fields,
  converted requests that are strings, upstream responses that are HTTP status codes,
  usage that is the quota it costs, ratios that are integers, and a recording sink.
  The adaptor is given by what its three methods return; the account starts with a
  balance of 1000, and a call reserves 100.
\<close>

definition example_request :: GeneralOpenAIRequest where
  "example_request = \<lparr>Model = ''gpt-x'', Stream = False\<rparr>"

definition example_adaptor ::
  "(error + string) \<Rightarrow> (error + nat) \<Rightarrow> (ErrorWithStatusCode + int)
    \<Rightarrow> (unit, string, nat, int) adaptor" where
  \<open>example_adaptor converted sent received =
     \<lparr>ConvertRequest = (\<lambda>mode textRequest. converted),
      DoRequest = (\<lambda>m requestBody. sent),
      DoResponse =
        (\<lambda>resp m. ([''{"choices":[{"message":{"content":"ok"}}]}''], received))\<rparr>\<close>

definition example_collaborators ::
  "(unit, string, nat, int) adaptor option
    \<Rightarrow> (unit, string, nat, int, int, recording_sink) collaborators" where
  \<open>example_collaborators found =
     \<lparr>getAndValidateTextRequest = (\<lambda>mode. Inr example_request),
      GetModelRatio = (\<lambda>name. 1),
      GetGroupRatio = (\<lambda>group. 1),
      ratio_mul = (*),
      getPromptTokens = (\<lambda>textRequest mode. 10),
      quotaToReserve = (\<lambda>textRequest promptTokens ratio m. 100),
      insufficientBalance =
        \<lparr>Message = ''quota exhausted'', Code = ''insufficient_balance'', StatusCode = 403\<rparr>,
      GetAdaptor = (\<lambda>apiType. found),
      apitype_OpenAI = 0,
      channeltype_Baichuan = 26,
      Marshal_request = (\<lambda>textRequest. Inr (''{"model":"'' @ Model textRequest @ ''"}'')),
      Marshal_converted = (\<lambda>converted. Inr converted),
      isErrorHappened = (\<lambda>m resp. resp \<noteq> 200),
      RelayErrorHandler =
        (\<lambda>resp. \<lparr>Message = ''upstream error'', Code = ''upstream_error'',
                 StatusCode = int resp\<rparr>),
      quotaUsed = (\<lambda>usage ratio modelRatio groupRatio. usage),
      rw_Write = recording_Write,
      ParseFloat_rangeError = (\<lambda>lit. False)\<rparr>\<close>

definition example_meta :: "int \<Rightarrow> int \<Rightarrow> Meta" where
  "example_meta apiType channelType =
     \<lparr>Mode = 1, ChannelType = channelType, TokenId = 7, Group = ''default'',
      ModelMapping = [''gpt-x'' \<mapsto> ''gpt-x-2024''], APIType = apiType,
      OriginModelName = [], ActualModelName = [], IsStream = False, PromptTokens = 0\<rparr>"

definition example_context :: "int \<Rightarrow> recording_sink Context" where
  \<open>example_context apiType =
     \<lparr>meta = example_meta apiType 1, Writer = ([], []),
      Request_Body = Reader ''{"model":"gpt-x","stream":false}'' None,
      quota = \<lparr>balance = 1000, events = []\<rparr>, logs = []\<rparr>\<close>

definition final_quota :: "'a Context + 'b Context \<Rightarrow> ledger" where
  "final_quota st = (case st of Inl c \<Rightarrow> quota c | Inr c \<Rightarrow> quota c)"

definition example_unreachable :: "error + nat" where
  "example_unreachable = Inl (Error ''connection refused'')"

definition example_bad_gateway :: "ErrorWithStatusCode + int" where
  "example_bad_gateway = Inl \<lparr>Message = ''bad response'', Code = ''bad_response'', StatusCode = 502\<rparr>"

section \<open>Properties of the duplicating writer\<close>

lemma Write_eq:
  "Write rw w b =
     (fst (rw (ResponseWriter w) b),
      w\<lparr>body := body w @ b, ResponseWriter := snd (rw (ResponseWriter w) b)\<rparr>)"
  by (simp add: Write_def Buffer_Write_def split: prod.split)

lemma WriteString_eq:
  "WriteString rw w b =
     (fst (rw (ResponseWriter w) b),
      w\<lparr>body := body w @ b, ResponseWriter := snd (rw (ResponseWriter w) b)\<rparr>)"
  by (simp add: WriteString_def Buffer_Write_def split: prod.split)

lemma Writes_Cons:
  "Writes rw w (b # bs) =
     (fst (Write rw w b) # fst (Writes rw (snd (Write rw w b)) bs),
      snd (Writes rw (snd (Write rw w b)) bs))"
  by (simp add: case_prod_beta)

lemma sink_Writes_Cons:
  "sink_Writes rw s (b # bs) =
     (fst (rw s b) # fst (sink_Writes rw (snd (rw s b)) bs),
      snd (sink_Writes rw (snd (rw s b)) bs))"
  by (simp add: case_prod_beta)

lemma Writes_results:
  "fst (Writes rw w bs) = fst (sink_Writes rw (ResponseWriter w) bs)"
proof (induction bs arbitrary: w)
  case Nil
  show ?case by simp
next
  case (Cons b bs)
  show ?case
    unfolding Writes_Cons sink_Writes_Cons by (simp add: Cons.IH Write_eq)
qed

lemma Writes_sink:
  "ResponseWriter (snd (Writes rw w bs)) = snd (sink_Writes rw (ResponseWriter w) bs)"
proof (induction bs arbitrary: w)
  case Nil
  show ?case by simp
next
  case (Cons b bs)
  show ?case
    unfolding Writes_Cons sink_Writes_Cons by (simp add: Cons.IH Write_eq)
qed

lemma Writes_body: "body (snd (Writes rw w bs)) = body w @ concat bs"
proof (induction bs arbitrary: w)
  case Nil
  show ?case by simp
next
  case (Cons b bs)
  show ?case
    unfolding Writes_Cons by (simp add: Cons.IH Write_eq)
qed

lemma recording_Write_got: "fst (snd (recording_Write s b)) = fst s @ b"
  by (cases "(s, b)" rule: recording_Write.cases) simp_all

lemma recording_sink_Writes_got:
  "fst (snd (sink_Writes recording_Write s bs)) = fst s @ concat bs"
proof (induction bs arbitrary: s)
  case Nil
  show ?case by simp
next
  case (Cons b bs)
  have "fst (snd (sink_Writes recording_Write (snd (recording_Write s b)) bs))
          = fst (snd (recording_Write s b)) @ concat bs"
    by (rule Cons.IH)
  then show ?case
    unfolding sink_Writes_Cons by (simp add: recording_Write_got)
qed

text \<open>
  C3. For any finite sequence of \<open>Write\<close> calls on the duplicating writer and any wrapped
  sink: the result \<open>(count, error)\<close> of every call is the result of the sink's own
  \<open>Write\<close> on the same bytes, and the sink ends in the state it would have reached had
  the same calls been made on it directly (so the accumulator never influences either);
  the accumulated copy grows by the concatenation of the written bytes in order; and a
  sink that records what it receives has received exactly that concatenation.
\<close>

theorem responseBodyLogWriter_transparent:
  "fst (Writes rw w bs) = fst (sink_Writes rw (ResponseWriter w) bs)
   \<and> ResponseWriter (snd (Writes rw w bs)) = snd (sink_Writes rw (ResponseWriter w) bs)
   \<and> body (snd (Writes rw w bs)) = body w @ concat bs
   \<and> fst (ResponseWriter (snd (Writes recording_Write v bs)))
       = fst (ResponseWriter v) @ concat bs"
  by (simp add: Writes_results Writes_sink Writes_body recording_sink_Writes_got)

text \<open>
  C9. The bytes are appended to the accumulator before they are forwarded, and the append
  has no failing branch: whatever the wrapped sink's \<open>Write\<close> or \<open>WriteString\<close> returns,
  an error included, the captured copy afterwards is the old copy followed by the bytes
  written. With a sink that fails on every call, the bytes are captured all the same.
\<close>

theorem responseBodyLogWriter_captures_despite_sink_error:
  "body (snd (Write rw w b)) = body w @ b
   \<and> body (snd (WriteString rws w b)) = body w @ b
   \<and> Write (\<lambda>s x. ((0, Some e), s)) w b = ((0, Some e), w\<lparr>body := body w @ b\<rparr>)
   \<and> WriteString (\<lambda>s x. ((0, Some e), s)) w b = ((0, Some e), w\<lparr>body := body w @ b\<rparr>)"
  by (simp add: Write_eq WriteString_eq)

section \<open>Properties of the content extraction\<close>

lemma choices_loop_eq:
  "choices_loop acc choices = acc @ concat (map delta_fragment choices)"
  by (induction acc choices rule: choices_loop.induct)
     (auto simp: delta_fragment_def split: json.splits option.splits)

lemma chunks_loop_eq:
  "chunks_loop r acc chunks
     = acc @ concat (map (\<lambda>chunk. frame_text r (TrimSpace chunk)) chunks)"
proof (induction chunks arbitrary: acc)
  case Nil
  show ?case by simp
next
  case (Cons chunk0 rest)
  show ?case
    by (simp add: Cons.IH frame_text_def choices_loop_eq Let_def
             split: sum.splits option.splits json.splits)
qed

text \<open>
  C4. On the three frames of the example the streaming extractor returns \<open>Hello\<close>. In
  general its result is the concatenation, in the order of arrival, of the texts of the
  frames the input splits into, where the text of a frame is \<open>frame_text\<close>: nothing
  for an empty frame, for the sentinel and for a frame that does not parse (the loop goes
  on with the next frame), and otherwise the delta content fragments of its choices, a
  choice missing a field giving nothing.
\<close>

theorem extractContentFromStream_concatenates_fragments:
  \<open>extractContentFromStream r
      ''data: {"choices":[{"delta":{"content":"Hel"}}]}\<newline>\<newline>data: {"choices":[{"delta":{"content":"lo"}}]}\<newline>\<newline>data: [DONE]\<newline>\<newline>''
      = ''Hello''
    \<and> extractContentFromStream r content
      = concat (map (\<lambda>chunk. frame_text r (TrimSpace chunk)) (Split content ''data: ''))\<close>
proof
  show \<open>extractContentFromStream r
      ''data: {"choices":[{"delta":{"content":"Hel"}}]}\<newline>\<newline>data: {"choices":[{"delta":{"content":"lo"}}]}\<newline>\<newline>data: [DONE]\<newline>\<newline>''
      = ''Hello''\<close>
    by code_simp
next
  show "extractContentFromStream r content
      = concat (map (\<lambda>chunk. frame_text r (TrimSpace chunk)) (Split content ''data: ''))"
    by (simp add: extractContentFromStream_def chunks_loop_eq)
qed

lemma extract_structure:
  assumes "Unmarshal r responseBody = Inr jsonData"
    and "lookup jsonData ''choices'' = Some (JArray (JObject choice # others))"
    and "lookup choice ''message'' = Some (JObject message)"
    and "lookup message ''content'' = Some (JString content)"
  shows "extractContentFromResponse r responseBody = content"
  using assms by (simp add: extractContentFromResponse_def)

text \<open>
  C5. The non-streaming extractor returns \<open>ok\<close> on the first example and the
  "no content found" placeholder on \<open>{"choices":[]}\<close>; and whenever the body decodes
  to an object whose \<open>choices\<close> is an array that starts with an object whose
  \<open>message\<close> is an object whose \<open>content\<close> is a string, it returns that string.
\<close>

theorem extractContentFromResponse_first_choice_message_content:
  \<open>extractContentFromResponse r ''{"choices":[{"message":{"content":"ok"}}]}'' = ''ok''
    \<and> extractContentFromResponse r ''{"choices":[]}'' = ''No content found in response''
    \<and> (Unmarshal r responseBody = Inr jsonData
        \<and> lookup jsonData ''choices'' = Some (JArray (JObject choice # others))
        \<and> lookup choice ''message'' = Some (JObject message)
        \<and> lookup message ''content'' = Some (JString content)
       \<longrightarrow> extractContentFromResponse r responseBody = content)\<close>
proof (intro conjI impI)
  show \<open>extractContentFromResponse r ''{"choices":[{"message":{"content":"ok"}}]}'' = ''ok''\<close>
    by code_simp
  show \<open>extractContentFromResponse r ''{"choices":[]}'' = ''No content found in response''\<close>
    by code_simp
  assume "Unmarshal r responseBody = Inr jsonData
        \<and> lookup jsonData ''choices'' = Some (JArray (JObject choice # others))
        \<and> lookup choice ''message'' = Some (JObject message)
        \<and> lookup message ''content'' = Some (JString content)"
  then show "extractContentFromResponse r responseBody = content"
    by (simp add: extract_structure)
qed

text \<open>Witness for C5: a body with two choices; the first one's content is returned.\<close>

theorem extractContentFromResponse_first_choice_message_content_witness:
  \<open>Unmarshal (\<lambda>lit. False)
       ''{"id":1,"choices":[{"message":{"content":"hi"}},{"message":{"content":"second"}}]}''
     = Inr [(''id'', JNumber ''1''),
            (''choices'', JArray [JObject [(''message'', JObject [(''content'', JString ''hi'')])],
                                  JObject [(''message'', JObject [(''content'', JString ''second'')])]])]
    \<and> extractContentFromResponse (\<lambda>lit. False)
       ''{"id":1,"choices":[{"message":{"content":"hi"}},{"message":{"content":"second"}}]}''
     = ''hi''\<close>
proof -
  let ?b = \<open>''{"id":1,"choices":[{"message":{"content":"hi"}},{"message":{"content":"second"}}]}''\<close>
  let ?msg = "[(''content'', JString ''hi'')]"
  let ?choice = "[(''message'', JObject ?msg)]"
  let ?others = "[JObject [(''message'', JObject [(''content'', JString ''second'')])]]"
  let ?doc = "[(''id'', JNumber ''1''), (''choices'', JArray (JObject ?choice # ?others))]"
  have u: "Unmarshal (\<lambda>lit. False) ?b = Inr ?doc"
    by code_simp
  have l1: "lookup ?doc ''choices'' = Some (JArray (JObject ?choice # ?others))"
    by (simp add: lookup_def)
  have l2: "lookup ?choice ''message'' = Some (JObject ?msg)"
    by (simp add: lookup_def)
  have l3: "lookup ?msg ''content'' = Some (JString ''hi'')"
    by (simp add: lookup_def)
  have "extractContentFromResponse (\<lambda>lit. False) ?b = ''hi''"
    using extractContentFromResponse_first_choice_message_content
            [where r = "\<lambda>lit. False" and responseBody = ?b and jsonData = ?doc
               and choice = ?choice and others = ?others and message = ?msg
               and content = "''hi''"]
          u l1 l2 l3
    by blast
  with u show ?thesis by simp
qed

lemma extract_invalid:
  "\<not> Valid responseBody
     \<Longrightarrow> extractContentFromResponse r responseBody = ''Failed to parse response JSON''"
  by (simp add: Valid_def extractContentFromResponse_def Unmarshal_def)

text \<open>
  C6. The non-streaming extractor is a function of the captured bytes (it reads nothing
  else, and never iterates over a map), so running it again gives the same string; more
  than that, two bodies that decode alike give the same string. On every body that is not
  valid JSON it returns the "failed to parse" placeholder as an ordinary result.
\<close>

theorem extractContentFromResponse_deterministic_placeholder_on_invalid_json:
  "(\<not> Valid responseBody
      \<longrightarrow> extractContentFromResponse r responseBody = ''Failed to parse response JSON'')
   \<and> (Unmarshal r responseBody = Unmarshal r responseBody'
      \<longrightarrow> extractContentFromResponse r responseBody
          = extractContentFromResponse r responseBody')"
proof (intro conjI impI)
  assume "\<not> Valid responseBody"
  then show "extractContentFromResponse r responseBody = ''Failed to parse response JSON''"
    by (rule extract_invalid)
next
  assume "Unmarshal r responseBody = Unmarshal r responseBody'"
  then show "extractContentFromResponse r responseBody
          = extractContentFromResponse r responseBody'"
    by (simp add: extractContentFromResponse_def)
qed

text \<open>
  Witness for C6: a truncated body is not valid JSON and gives the placeholder; a body and
  the same body with white space added decode alike and give the same string.
\<close>

theorem extractContentFromResponse_deterministic_placeholder_on_invalid_json_witness:
  \<open>\<not> Valid ''{"choices":[{"message":''
    \<and> extractContentFromResponse (\<lambda>lit. False) ''{"choices":[{"message":''
        = ''Failed to parse response JSON''
    \<and> Unmarshal (\<lambda>lit. False) ''{"choices":[]}''
        = Unmarshal (\<lambda>lit. False) '' { "choices" : [ ] } ''
    \<and> extractContentFromResponse (\<lambda>lit. False) ''{"choices":[]}''
        = extractContentFromResponse (\<lambda>lit. False) '' { "choices" : [ ] } ''\<close>
proof -
  have v: \<open>\<not> Valid ''{"choices":[{"message":''\<close>
    by code_simp
  have u: \<open>Unmarshal (\<lambda>lit. False) ''{"choices":[]}''
        = Unmarshal (\<lambda>lit. False) '' { "choices" : [ ] } ''\<close>
    by code_simp
  note t = extractContentFromResponse_deterministic_placeholder_on_invalid_json
  from t [where r = "\<lambda>lit. False" and responseBody = \<open>''{"choices":[{"message":''\<close>] v
  have a: \<open>extractContentFromResponse (\<lambda>lit. False) ''{"choices":[{"message":''
        = ''Failed to parse response JSON''\<close>
    by blast
  from t [where r = "\<lambda>lit. False" and responseBody = \<open>''{"choices":[]}''\<close>
            and responseBody' = \<open>'' { "choices" : [ ] } ''\<close>] u
  have b: \<open>extractContentFromResponse (\<lambda>lit. False) ''{"choices":[]}''
        = extractContentFromResponse (\<lambda>lit. False) '' { "choices" : [ ] } ''\<close>
    by blast
  from v a u b show ?thesis by blast
qed

lemma prefix_append_butlast:
  assumes "a \<noteq> []" and "prefix sep (a @ sep @ b)"
  shows "prefix sep (a @ butlast sep)"
proof (cases "sep = []")
  case True
  then show ?thesis by simp
next
  case False
  have len: "length sep \<le> length (a @ butlast sep)"
    using assms(1) False by (cases a) simp_all
  have "take (length sep) (a @ sep @ b) = sep"
    using assms(2) by (metis append_eq_conv_conj prefix_def)
  moreover have "take (length sep) (a @ sep @ b) = take (length sep) (a @ butlast sep)"
  proof -
    have eq: "a @ sep @ b = (a @ butlast sep) @ (last sep # b)"
      using False by simp
    have "take (length sep) ((a @ butlast sep) @ (last sep # b))
            = take (length sep) (a @ butlast sep)"
      by (subst take_append) (use len in simp)
    then show ?thesis by (simp only: eq)
  qed
  ultimately have "take (length sep) (a @ butlast sep) = sep" by simp
  then show ?thesis by (metis take_is_prefix)
qed

text \<open>
  If no occurrence of the separator starts within \<open>a\<close>, the first occurrence in
  \<open>a @ sep @ b\<close> is the one after \<open>a\<close>, and \<open>Split\<close> cuts there.
\<close>

lemma Index_first_occurrence:
  "sep \<noteq> [] \<Longrightarrow> Index (a @ butlast sep) sep = None
     \<Longrightarrow> Index (a @ sep @ b) sep = Some (length a)"
proof (induction a)
  case Nil
  then show ?case by (cases sep) simp_all
next
  case (Cons x a)
  from Cons.prems(2) have np: "\<not> prefix sep ((x # a) @ butlast sep)"
    and rest: "Index (a @ butlast sep) sep = None"
    by (auto split: if_splits)
  have "\<not> prefix sep ((x # a) @ sep @ b)"
    using np prefix_append_butlast [of "x # a" sep b] by blast
  then show ?case
    using Cons.IH [OF Cons.prems(1) rest] by simp
qed

lemma Split_at_first_occurrence:
  assumes "sep \<noteq> []" and "Index (a @ butlast sep) sep = None"
  shows "Split (a @ sep @ b) sep = a # Split b sep"
proof -
  have "Index (a @ sep @ b) sep = Some (length a)"
    using assms by (rule Index_first_occurrence)
  then show ?thesis
    using assms(1) by (subst Split.simps) simp
qed

lemma extractContentFromStream_at_marker:
  assumes "Index (a @ ''data:'') ''data: '' = None"
  shows "extractContentFromStream r (a @ ''data: '' @ b)
           = frame_text r (TrimSpace a) @ extractContentFromStream r b"
proof -
  have "Split (a @ ''data: '' @ b) ''data: '' = a # Split b ''data: ''"
    using assms by (intro Split_at_first_occurrence) simp_all
  then show ?thesis
    by (simp add: extractContentFromStream_def chunks_loop_eq)
qed

text \<open>
  C10. The streaming extractor cuts its input at every occurrence of the six bytes
  \<open>data: \<close>, wherever they stand: the bytes \<open>a\<close> before the first occurrence are one
  chunk, whatever they are, and the extraction goes on after the occurrence. An input in
  which the six bytes do not occur is one chunk: it is trimmed and parsed as a whole, so
  an unprefixed chunk still contributes its fragment (\<open>x\<close> in the example). And an
  occurrence inside a JSON string is cut as well: the frame of the last example falls
  into two pieces that do not parse, and its text is lost.
\<close>

theorem extractContentFromStream_splits_at_every_marker:
  \<open>(Index content ''data: '' = None
      \<longrightarrow> Split content ''data: '' = [content]
        \<and> extractContentFromStream r content = chunks_loop r [] [content]
        \<and> extractContentFromStream r content = frame_text r (TrimSpace content))
    \<and> (Index (a @ ''data:'') ''data: '' = None
      \<longrightarrow> extractContentFromStream r (a @ ''data: '' @ b)
          = frame_text r (TrimSpace a) @ extractContentFromStream r b)
    \<and> extractContentFromStream r ''{"choices":[{"delta":{"content":"x"}}]}'' = ''x''
    \<and> Split ''data: {"choices":[{"delta":{"content":"my data: x"}}]}'' ''data: ''
        = [[], ''{"choices":[{"delta":{"content":"my '', ''x"}}]}'']
    \<and> extractContentFromStream r ''data: {"choices":[{"delta":{"content":"my data: x"}}]}''
        = []\<close>
proof (intro conjI impI)
  assume n: "Index content ''data: '' = None"
  then show s: "Split content ''data: '' = [content]"
    by simp
  show "extractContentFromStream r content = chunks_loop r [] [content]"
    unfolding extractContentFromStream_def s ..
  show "extractContentFromStream r content = frame_text r (TrimSpace content)"
    unfolding extractContentFromStream_def s by (simp add: chunks_loop_eq)
next
  assume "Index (a @ ''data:'') ''data: '' = None"
  then show "extractContentFromStream r (a @ ''data: '' @ b)
          = frame_text r (TrimSpace a) @ extractContentFromStream r b"
    by (rule extractContentFromStream_at_marker)
next
  show \<open>extractContentFromStream r ''{"choices":[{"delta":{"content":"x"}}]}'' = ''x''\<close>
    by code_simp
  show \<open>Split ''data: {"choices":[{"delta":{"content":"my data: x"}}]}'' ''data: ''
        = [[], ''{"choices":[{"delta":{"content":"my '', ''x"}}]}'']\<close>
    by code_simp
  show \<open>extractContentFromStream r ''data: {"choices":[{"delta":{"content":"my data: x"}}]}''
        = []\<close>
    by code_simp
qed

text \<open>
  Witness for C10: an unprefixed chunk with white space around it and two choices; and
  a marker after a complete unprefixed chunk, in the middle of a line.
\<close>

theorem extractContentFromStream_splits_at_every_marker_witness:
  \<open>Index ''  {"choices":[{"delta":{"content":"x"}},{"delta":{"content":"y"}}]}\<newline>'' ''data: '' = None
    \<and> extractContentFromStream (\<lambda>lit. False)
         ''  {"choices":[{"delta":{"content":"x"}},{"delta":{"content":"y"}}]}\<newline>''
       = frame_text (\<lambda>lit. False)
           ''{"choices":[{"delta":{"content":"x"}},{"delta":{"content":"y"}}]}''
    \<and> frame_text (\<lambda>lit. False)
           ''{"choices":[{"delta":{"content":"x"}},{"delta":{"content":"y"}}]}'' = ''xy''
    \<and> Index (''{"choices":[{"delta":{"content":"a"}}]} '' @ ''data:'') ''data: '' = None
    \<and> extractContentFromStream (\<lambda>lit. False)
         (''{"choices":[{"delta":{"content":"a"}}]} '' @ ''data: '' @ ''[DONE]'')
       = ''a''\<close>
proof -
  let ?c = \<open>''  {"choices":[{"delta":{"content":"x"}},{"delta":{"content":"y"}}]}\<newline>''\<close>
  let ?a = \<open>''{"choices":[{"delta":{"content":"a"}}]} ''\<close>
  note t = extractContentFromStream_splits_at_every_marker
  have i: "Index ?c ''data: '' = None"
    by code_simp
  have tr: \<open>TrimSpace ?c = ''{"choices":[{"delta":{"content":"x"}},{"delta":{"content":"y"}}]}''\<close>
    by code_simp
  have f: \<open>frame_text (\<lambda>lit. False)
           ''{"choices":[{"delta":{"content":"x"}},{"delta":{"content":"y"}}]}'' = ''xy''\<close>
    by code_simp
  from t [where content = ?c and r = "\<lambda>lit. False"] i
  have e: "extractContentFromStream (\<lambda>lit. False) ?c = frame_text (\<lambda>lit. False) (TrimSpace ?c)"
    by blast
  have j: "Index (?a @ ''data:'') ''data: '' = None"
    by code_simp
  have fa: "frame_text (\<lambda>lit. False) (TrimSpace ?a) = ''a''"
    by code_simp
  have d: "extractContentFromStream (\<lambda>lit. False) ''[DONE]'' = []"
    by code_simp
  from t [where a = ?a and b = "''[DONE]''" and r = "\<lambda>lit. False"] j
  have "extractContentFromStream (\<lambda>lit. False) (?a @ ''data: '' @ ''[DONE]'')
          = frame_text (\<lambda>lit. False) (TrimSpace ?a)
            @ extractContentFromStream (\<lambda>lit. False) ''[DONE]''"
    by blast
  then have g: "extractContentFromStream (\<lambda>lit. False) (?a @ ''data: '' @ ''[DONE]'') = ''a''"
    by (simp only: fa d append_Nil2)
  show ?thesis
    using i e tr f j g by (simp only: simp_thms)
qed

section \<open>Properties of the relay\<close>

lemma getRequestBody_quota:
  "quota (snd (getRequestBody k c m textRequest adaptor isModelMapped)) = quota c"
  by (simp add: getRequestBody_def Let_def split: sum.splits prod.splits)

lemma getRequestBody_meta:
  "meta (snd (getRequestBody k c m textRequest adaptor isModelMapped)) = meta c"
  by (simp add: getRequestBody_def Let_def split: sum.splits prod.splits)

text \<open>
  What a call does to the ledger once the quota is pre-consumed: nothing when the
  adaptor is not found, when the request body cannot be built or when \<open>DoRequest\<close>
  fails; one release when the upstream response is an error or \<open>DoResponse\<close> fails;
  one settlement otherwise.
\<close>

lemma relay_reserved_quota:
  "quota (snd (relay_reserved k c textRequest isModelMapped ratio modelRatio groupRatio a)) =
     (case GetAdaptor k (APIType (meta c)) of
        None \<Rightarrow> quota c
      | Some adaptor \<Rightarrow>
          (case fst (getRequestBody k c (meta c) textRequest adaptor isModelMapped) of
             Inl err \<Rightarrow> quota c
           | Inr (requestBody, bodyContent) \<Rightarrow>
               (case DoRequest adaptor (meta c) requestBody of
                  Inl err \<Rightarrow> quota c
                | Inr resp \<Rightarrow>
                    if isErrorHappened k (meta c) resp
                    then ReturnPreConsumedQuota a (quota c)
                    else (case snd (DoResponse adaptor resp (meta c)) of
                            Inl respErr \<Rightarrow> ReturnPreConsumedQuota a (quota c)
                          | Inr usage \<Rightarrow>
                              postConsumeQuota (quotaUsed k usage ratio modelRatio groupRatio)
                                a (quota c)))))"
proof (cases "GetAdaptor k (APIType (meta c))")
  case None
  then show ?thesis by (simp add: relay_reserved_def)
next
  case (Some adaptor)
  obtain r c1 where g: "getRequestBody k c (meta c) textRequest adaptor isModelMapped = (r, c1)"
    by (cases "getRequestBody k c (meta c) textRequest adaptor isModelMapped")
  have q: "quota c1 = quota c" and m: "meta c1 = meta c"
    using getRequestBody_quota [of k c "meta c" textRequest adaptor isModelMapped]
          getRequestBody_meta [of k c "meta c" textRequest adaptor isModelMapped] g
    by simp_all
  show ?thesis
    by (simp add: relay_reserved_def Some g q m Let_def
             split: sum.splits prod.splits)
qed

lemma release_restores_balance:
  "preConsumeQuota e amount l = (Inr a, l1)
     \<Longrightarrow> balance (ReturnPreConsumedQuota a l1) = balance l"
  by (auto simp: preConsumeQuota_def ReturnPreConsumedQuota_def split: if_splits)

lemma releases_Return [simp]: "releases (ReturnPreConsumedQuota a l) = Suc (releases l)"
  by (simp add: releases_def ReturnPreConsumedQuota_def)

lemma settlements_Return [simp]: "settlements (ReturnPreConsumedQuota a l) = settlements l"
  by (simp add: settlements_def ReturnPreConsumedQuota_def)

lemma releases_post [simp]: "releases (postConsumeQuota x a l) = releases l"
  by (simp add: releases_def postConsumeQuota_def)

lemma settlements_post [simp]: "settlements (postConsumeQuota x a l) = Suc (settlements l)"
  by (simp add: settlements_def postConsumeQuota_def)

text \<open>
  Once \<open>DoRequest\<close> has returned a response, the call releases or settles exactly once.
\<close>

lemma relay_reserved_once_after_DoRequest:
  assumes "GetAdaptor k (APIType (meta c)) = Some adaptor"
    and "fst (getRequestBody k c (meta c) textRequest adaptor isModelMapped)
           = Inr (requestBody, bodyContent)"
    and "DoRequest adaptor (meta c) requestBody = Inr resp"
  shows "releases (quota (snd (relay_reserved k c textRequest isModelMapped ratio
                                 modelRatio groupRatio a)))
         + settlements (quota (snd (relay_reserved k c textRequest isModelMapped ratio
                                 modelRatio groupRatio a)))
         = releases (quota c) + settlements (quota c) + 1"
  using assms by (simp add: relay_reserved_quota split: sum.splits)

text \<open>
  Before that, it does neither: the three early returns leave the ledger as it was after
  the reservation.
\<close>

lemma relay_reserved_pending_before_DoRequest:
  assumes "GetAdaptor k (APIType (meta c)) = None
           \<or> (\<exists>adaptor. GetAdaptor k (APIType (meta c)) = Some adaptor
                \<and> (\<exists>err. fst (getRequestBody k c (meta c) textRequest adaptor isModelMapped)
                           = Inl err))
           \<or> (\<exists>adaptor requestBody bodyContent err.
                GetAdaptor k (APIType (meta c)) = Some adaptor
                \<and> fst (getRequestBody k c (meta c) textRequest adaptor isModelMapped)
                    = Inr (requestBody, bodyContent)
                \<and> DoRequest adaptor (meta c) requestBody = Inl err)"
  shows "quota (snd (relay_reserved k c textRequest isModelMapped ratio
                       modelRatio groupRatio a)) = quota c"
  using assms by (auto simp: relay_reserved_quota)


text \<open>
  C2. A failure of \<open>DoRequest\<close> does not roll the quota back: the call returns
  \<open>do_request_failed\<close> and the balance, 1000 before the call, is 900 after it. A
  failure of \<open>DoResponse\<close> does: the call returns the adaptor's error and the balance
  is 1000 again, the reservation released.
\<close>

theorem RelayTextHelper_DoRequest_failure_keeps_quota:
  "balance (quota (example_context 0)) = 1000
   \<and> map_option Code (fst (RelayTextHelper
          (example_collaborators (Some (example_adaptor (Inr []) example_unreachable (Inr 80))))
          (example_context 0)))
     = Some ''do_request_failed''
   \<and> balance (final_quota (snd (RelayTextHelper
          (example_collaborators (Some (example_adaptor (Inr []) example_unreachable (Inr 80))))
          (example_context 0))))
     = 900
   \<and> map_option Code (fst (RelayTextHelper
          (example_collaborators (Some (example_adaptor (Inr []) (Inr 200) example_bad_gateway)))
          (example_context 0)))
     = Some ''bad_response''
   \<and> final_quota (snd (RelayTextHelper
          (example_collaborators (Some (example_adaptor (Inr []) (Inr 200) example_bad_gateway)))
          (example_context 0)))
     = \<lparr>balance = 1000, events = [Reserved 100, Released 100]\<rparr>"
  by code_simp

text \<open>
  C7. With the API type of the OpenAI-compatible passthrough, the request body does
  not depend on the adaptor (\<open>ConvertRequest\<close> is not consulted). If the model was not
  remapped and the channel is not Baichuan, the body is the bytes read from the inbound
  request, and the inbound body is restored; if the model was remapped or the channel is
  Baichuan, it is the JSON serialization of the canonical request.
\<close>

theorem getRequestBody_passthrough:
  "(APIType m = apitype_OpenAI k
      \<longrightarrow> getRequestBody k c m textRequest adaptor isModelMapped
          = getRequestBody k c m textRequest adaptor' isModelMapped)
   \<and> (APIType m = apitype_OpenAI k \<and> \<not> isModelMapped
        \<and> ChannelType m \<noteq> channeltype_Baichuan k \<and> Request_Body c = Reader bodyBytes None
      \<longrightarrow> getRequestBody k c m textRequest adaptor isModelMapped
          = (Inr (bodyBytes, bodyBytes), c))
   \<and> (APIType m = apitype_OpenAI k
        \<and> (isModelMapped \<or> ChannelType m = channeltype_Baichuan k)
        \<and> Marshal_request k textRequest = Inr jsonStr
      \<longrightarrow> getRequestBody k c m textRequest adaptor isModelMapped
          = (Inr (jsonStr, jsonStr), c))"
  by (auto simp: getRequestBody_def)

theorem getRequestBody_passthrough_witness:
  \<open>APIType (example_meta 0 1) = apitype_OpenAI (example_collaborators None)
   \<and> ChannelType (example_meta 0 1) \<noteq> channeltype_Baichuan (example_collaborators None)
   \<and> ChannelType (example_meta 0 26) = channeltype_Baichuan (example_collaborators None)
   \<and> getRequestBody (example_collaborators None) (example_context 0) (example_meta 0 1)
        example_request (example_adaptor (Inl (Error ''unsupported'')) example_unreachable example_bad_gateway)
        False
     = getRequestBody (example_collaborators None) (example_context 0) (example_meta 0 1)
        example_request (example_adaptor (Inr ''converted'') (Inr 200) (Inr 80)) False
   \<and> getRequestBody (example_collaborators None) (example_context 0) (example_meta 0 1)
        example_request (example_adaptor (Inr ''converted'') (Inr 200) (Inr 80)) False
     = (Inr (''{"model":"gpt-x","stream":false}'', ''{"model":"gpt-x","stream":false}''),
        example_context 0)
   \<and> getRequestBody (example_collaborators None) (example_context 0) (example_meta 0 1)
        (example_request\<lparr>Model := ''gpt-x-2024''\<rparr>)
        (example_adaptor (Inr ''converted'') (Inr 200) (Inr 80)) True
     = (Inr (''{"model":"gpt-x-2024"}'', ''{"model":"gpt-x-2024"}''), example_context 0)
   \<and> getRequestBody (example_collaborators None) (example_context 0) (example_meta 0 26)
        example_request (example_adaptor (Inr ''converted'') (Inr 200) (Inr 80)) False
     = (Inr (''{"model":"gpt-x"}'', ''{"model":"gpt-x"}''), example_context 0)\<close>
proof -
  let ?k = "example_collaborators None"
  let ?c = "example_context 0"
  let ?a = "example_adaptor (Inr ''converted'') (Inr 200) (Inr 80)"
  let ?a' = "example_adaptor (Inl (Error ''unsupported'')) example_unreachable example_bad_gateway"
  note t = getRequestBody_passthrough
  have api: "APIType (example_meta 0 1) = apitype_OpenAI ?k"
    and api': "APIType (example_meta 0 26) = apitype_OpenAI ?k"
    and ch: "ChannelType (example_meta 0 1) \<noteq> channeltype_Baichuan ?k"
    and ch': "ChannelType (example_meta 0 26) = channeltype_Baichuan ?k"
    by (simp_all add: example_meta_def example_collaborators_def)
  have rb: \<open>Request_Body ?c = Reader ''{"model":"gpt-x","stream":false}'' None\<close>
    by (simp add: example_context_def)
  have m1: \<open>Marshal_request ?k (example_request\<lparr>Model := ''gpt-x-2024''\<rparr>)
              = Inr ''{"model":"gpt-x-2024"}''\<close>
    and m2: \<open>Marshal_request ?k example_request = Inr ''{"model":"gpt-x"}''\<close>
    by (simp_all add: example_collaborators_def example_request_def)
  have a: "getRequestBody ?k ?c (example_meta 0 1) example_request ?a' False
             = getRequestBody ?k ?c (example_meta 0 1) example_request ?a False"
    using t [where k = ?k and m = "example_meta 0 1" and c = ?c
               and textRequest = example_request and adaptor = ?a' and adaptor' = ?a
               and isModelMapped = False] api
    by blast
  have b: \<open>getRequestBody ?k ?c (example_meta 0 1) example_request ?a False
             = (Inr (''{"model":"gpt-x","stream":false}'', ''{"model":"gpt-x","stream":false}''),
                ?c)\<close>
    using t [where k = ?k and m = "example_meta 0 1" and c = ?c
               and textRequest = example_request and adaptor = ?a and isModelMapped = False
               and bodyBytes = \<open>''{"model":"gpt-x","stream":false}''\<close>] api ch rb
    by blast
  have c: \<open>getRequestBody ?k ?c (example_meta 0 1) (example_request\<lparr>Model := ''gpt-x-2024''\<rparr>)
              ?a True
             = (Inr (''{"model":"gpt-x-2024"}'', ''{"model":"gpt-x-2024"}''), ?c)\<close>
    using t [where k = ?k and m = "example_meta 0 1" and c = ?c
               and textRequest = "example_request\<lparr>Model := ''gpt-x-2024''\<rparr>"
               and adaptor = ?a and isModelMapped = True
               and jsonStr = \<open>''{"model":"gpt-x-2024"}''\<close>] api m1
    by blast
  have d: \<open>getRequestBody ?k ?c (example_meta 0 26) example_request ?a False
             = (Inr (''{"model":"gpt-x"}'', ''{"model":"gpt-x"}''), ?c)\<close>
    using t [where k = ?k and m = "example_meta 0 26" and c = ?c
               and textRequest = example_request and adaptor = ?a and isModelMapped = False
               and jsonStr = \<open>''{"model":"gpt-x"}''\<close>] api' ch' m2
    by blast
  from api ch ch' a b c d show ?thesis by blast
qed

text \<open>
  C8. With the mapping table \<open>{"gpt-x": "gpt-x-2024"}\<close> and a request for \<open>gpt-x\<close>,
  the request's model becomes \<open>gpt-x-2024\<close> and the flag is true; a name that is not
  in the table is left as it is and the flag is false. In both cases the requested name
  is recorded as \<open>OriginModelName\<close> and the effective one as \<open>ActualModelName\<close>.
\<close>

theorem map_model_name_remaps:
  "map_model_name (m\<lparr>ModelMapping := [''gpt-x'' \<mapsto> ''gpt-x-2024'']\<rparr>)
       (textRequest\<lparr>Model := ''gpt-x''\<rparr>)
     = (m\<lparr>ModelMapping := [''gpt-x'' \<mapsto> ''gpt-x-2024''],
          OriginModelName := ''gpt-x'', ActualModelName := ''gpt-x-2024''\<rparr>,
        textRequest\<lparr>Model := ''gpt-x-2024''\<rparr>, True)
   \<and> (ModelMapping m (Model textRequest) = None
      \<longrightarrow> map_model_name m textRequest
          = (m\<lparr>OriginModelName := Model textRequest, ActualModelName := Model textRequest\<rparr>,
             textRequest, False))"
  by (simp add: map_model_name_def getMappedModelName_def)

theorem map_model_name_remaps_witness:
  "ModelMapping (example_meta 0 1) (Model (example_request\<lparr>Model := ''gpt-4''\<rparr>)) = None
   \<and> map_model_name (example_meta 0 1) (example_request\<lparr>Model := ''gpt-4''\<rparr>)
     = ((example_meta 0 1)\<lparr>OriginModelName := ''gpt-4'', ActualModelName := ''gpt-4''\<rparr>,
        example_request\<lparr>Model := ''gpt-4''\<rparr>, False)"
proof -
  have h: "ModelMapping (example_meta 0 1) (Model (example_request\<lparr>Model := ''gpt-4''\<rparr>)) = None"
    by (simp add: example_meta_def)
  from map_model_name_remaps
         [where m = "example_meta 0 1" and textRequest = "example_request\<lparr>Model := ''gpt-4''\<rparr>"]
       h
  have "map_model_name (example_meta 0 1) (example_request\<lparr>Model := ''gpt-4''\<rparr>)
     = ((example_meta 0 1)\<lparr>OriginModelName := Model (example_request\<lparr>Model := ''gpt-4''\<rparr>),
          ActualModelName := Model (example_request\<lparr>Model := ''gpt-4''\<rparr>)\<rparr>,
        example_request\<lparr>Model := ''gpt-4''\<rparr>, False)"
    by blast
  with h show ?thesis by simp
qed
end
